theory Spec2Isabelle
  imports Complex_Main
begin

section \<open>Numbers of the source\<close>

text \<open>
  The service is Python. Its \<open>float\<close> values are modelled as real numbers and its \<open>int\<close>
  values as integers: the model has no rounding error, no infinity and no NaN. The three
  conversions the source uses are written out.
\<close>

definition py_int :: "real \<Rightarrow> int" where
  \<comment> \<open>\<open>int(x)\<close> on a float: truncation towards zero.\<close>
  "py_int x = (if 0 \<le> x then \<lfloor>x\<rfloor> else \<lceil>x\<rceil>)"

definition py_round :: "real \<Rightarrow> int" where
  \<comment> \<open>\<open>round(x)\<close> with one argument: nearest integer, a tie goes to the even one.\<close>
  "py_round x =
     (let f = \<lfloor>x\<rfloor>; d = x - of_int f
      in if d < 1 / 2 then f
         else if 1 / 2 < d then f + 1
         else if even f then f else f + 1)"

definition py_round_nd :: "real \<Rightarrow> nat \<Rightarrow> real" where
  \<comment> \<open>\<open>round(x, n)\<close>: the same rounding at \<open>n\<close> decimal places.\<close>
  "py_round_nd x n = of_int (py_round (x * 10 ^ n)) / 10 ^ n"

definition or_default :: "'a::zero option \<Rightarrow> 'a \<Rightarrow> 'a" where
  \<comment> \<open>\<open>v or d\<close> on an optional number: \<open>None\<close> and zero are both falsy.\<close>
  "or_default v d = (case v of None \<Rightarrow> d | Some x \<Rightarrow> if x = 0 then d else x)"

definition truthy_num :: "'a::zero option \<Rightarrow> bool" where
  \<comment> \<open>\<open>if v:\<close> on an optional number.\<close>
  "truthy_num v = (case v of None \<Rightarrow> False | Some x \<Rightarrow> x \<noteq> 0)"

section \<open>Request model\<close>

type_synonym point = "real \<times> real"

text \<open>
  \<open>GeoJSONPolygon\<close>: the \<open>type\<close> field is the literal \<open>Polygon\<close>; \<open>coordinates\<close> is a list of
  rings of positions, a position being a longitude and a latitude.
\<close>

record GeoJSONPolygon =
  coordinates :: "point list list"

record EstimateRequest =
  lat :: real
  lon :: real
  polygon :: "GeoJSONPolygon option"
  tilt_deg :: "real option"
  azimuth_deg :: "real option"
  system_kw :: "real option"
  panel_watts :: "int option"
  panel_area_m2 :: "real option"
  packing_ratio :: "real option"
  losses_percent :: "real option"

definition in_range :: "real option \<Rightarrow> (real \<Rightarrow> bool) \<Rightarrow> bool" where
  "in_range v P = (case v of None \<Rightarrow> True | Some x \<Rightarrow> P x)"

definition valid_request :: "EstimateRequest \<Rightarrow> bool" where
  \<comment> \<open>The \<open>Field\<close> constraints of \<open>EstimateRequest\<close>; \<open>lat\<close> and \<open>lon\<close> carry none.\<close>
  "valid_request req \<longleftrightarrow>
     in_range (tilt_deg req) (\<lambda>x. 0 \<le> x \<and> x \<le> 90) \<and>
     in_range (azimuth_deg req) (\<lambda>x. 0 \<le> x \<and> x \<le> 360) \<and>
     in_range (system_kw req) (\<lambda>x. 0 < x) \<and>
     (case panel_watts req of None \<Rightarrow> True | Some w \<Rightarrow> 0 < w) \<and>
     in_range (panel_area_m2 req) (\<lambda>x. 0 < x) \<and>
     in_range (packing_ratio req) (\<lambda>x. 0 < x \<and> x \<le> 1) \<and>
     in_range (losses_percent req) (\<lambda>x. 0 \<le> x \<and> x \<le> 40)"

section \<open>Helpers\<close>

subsection \<open>\<open>utm_crs_for_lon\<close>\<close>

definition utm_zone :: "real \<Rightarrow> int" where
  \<comment> \<open>\<open>zone = int(math.floor((lon + 180) / 6) + 1)\<close>\<close>
  "utm_zone lo = \<lfloor>(lo + 180) / 6\<rfloor> + 1"

definition utm_south :: "real \<Rightarrow> bool" where
  \<comment> \<open>\<open>south = lat < 0\<close>\<close>
  "utm_south la \<longleftrightarrow> la < 0"

definition utm_crs_for_lon :: "real \<Rightarrow> real \<Rightarrow> int" where
  \<comment> \<open>The EPSG code handed to \<open>CRS.from_epsg\<close>.\<close>
  "utm_crs_for_lon lo la =
     (if utm_south la then 32700 + utm_zone lo else 32600 + utm_zone lo)"

definition default_tilt :: "real \<Rightarrow> real" where
  "default_tilt la = 10"

definition default_azimuth :: "real \<Rightarrow> real" where
  "default_azimuth la = 180"

section \<open>Panel count and system size\<close>

text \<open>
  Lines 120 to 122 and 139 to 154 of \<open>estimate\<close>, as a function of \<open>total_area\<close> (the area of
  the polygon, \<open>None\<close> without one) and of the request.
\<close>

record sizing =
  sz_max_panels :: "int option"
  sz_rec_panels :: int
  sz_system_kw :: real

definition max_panels_of :: "real option \<Rightarrow> EstimateRequest \<Rightarrow> int option" where
  "max_panels_of total_area req =
     (let panel_area = or_default (panel_area_m2 req) (195 / 100);
          pack = or_default (packing_ratio req) (85 / 100)
      in if truthy_num total_area
         then Some (py_int ((the total_area * pack) / panel_area))
         else None)"

definition size_array :: "real option \<Rightarrow> EstimateRequest \<Rightarrow> sizing" where
  "size_array total_area req =
     (let pw = or_default (panel_watts req) 400;
          max_panels = max_panels_of total_area req
      in if truthy_num (system_kw req)
         then \<lparr>sz_max_panels = max_panels,
               sz_rec_panels = py_round ((the (system_kw req) * 1000) / of_int pw),
               sz_system_kw = the (system_kw req)\<rparr>
         else if truthy_num max_panels
         then \<lparr>sz_max_panels = max_panels,
               sz_rec_panels = the max_panels,
               sz_system_kw = of_int (the max_panels) * of_int pw / 1000\<rparr>
         else \<lparr>sz_max_panels = max_panels,
               sz_rec_panels = py_round ((3 * 1000) / of_int pw),
               sz_system_kw = 3\<rparr>)"

definition reported_max_panels :: "sizing \<Rightarrow> int" where
  \<comment> \<open>\<open>maxArrayPanelsCount\<close>: \<open>max_panels if max_panels is not None else rec_panels\<close>\<close>
  "reported_max_panels s =
     (case sz_max_panels s of Some n \<Rightarrow> n | None \<Rightarrow> sz_rec_panels s)"

section \<open>Polygon area\<close>

type_synonym ring = "point list"

fun path_sum :: "(point \<Rightarrow> point \<Rightarrow> real) \<Rightarrow> point list \<Rightarrow> real" where
  "path_sum f (a # b # ps) = f a b + path_sum f (b # ps)"
| "path_sum f [a] = 0"
| "path_sum f [] = 0"

definition ring_sum :: "(point \<Rightarrow> point \<Rightarrow> real) \<Rightarrow> ring \<Rightarrow> real" where
  \<comment> \<open>The sum of \<open>f\<close> over the edges of the ring, the closing edge included.\<close>
  "ring_sum f r = (case r of [] \<Rightarrow> 0 | p # _ \<Rightarrow> path_sum f (r @ [p]))"

definition cross :: "point \<Rightarrow> point \<Rightarrow> real" where
  "cross a b = fst a * snd b - fst b * snd a"

definition signed_area :: "ring \<Rightarrow> real" where
  "signed_area r = ring_sum cross r / 2"

definition planar_area :: "ring \<Rightarrow> real" where
  \<comment> \<open>Modelled from the spec: the \<open>area\<close> property of the geometry library's polygon, which
      is not code of this repository. The spec: the standard shoelace (signed area)
      formula, and its absolute value.\<close>
  "planar_area r = \<bar>signed_area r\<bar>"

definition ring_centroid :: "ring \<Rightarrow> point" where
  \<comment> \<open>Modelled from the spec: the \<open>centroid\<close> property of the geometry library's polygon,
      as the centroid of the enclosed area. For a ring of signed area zero the library
      takes a centroid of the boundary instead; the formula has the value (0, 0) there.\<close>
  "ring_centroid r =
     (let a = signed_area r
      in (ring_sum (\<lambda>p q. (fst p + fst q) * cross p q) r / (6 * a),
          ring_sum (\<lambda>p q. (snd p + snd q) * cross p q) r / (6 * a)))"

definition polygon_area_m2 :: "(int \<Rightarrow> point \<Rightarrow> point) \<Rightarrow> ring \<Rightarrow> real" where
  \<comment> \<open>The projection library's transformer from EPSG:4326 to the chosen code is the
      parameter \<open>tf\<close>.\<close>
  "polygon_area_m2 tf poly_lonlat =
     (let centroid = ring_centroid poly_lonlat;
          crs_utm = utm_crs_for_lon (fst centroid) (snd centroid);
          proj_poly = map (tf crs_utm) poly_lonlat
      in planar_area proj_poly)"

section \<open>Collaborator payloads\<close>

text \<open>
  What \<open>r.json()\<close> returns: a Python value built from \<open>None\<close>, booleans, numbers, strings,
  lists and dictionaries. A dictionary is an association list read with \<open>map_of\<close>.
\<close>

datatype json =
    JNull
  | JBool bool
  | JNum real
  | JStr string
  | JArr "json list"
  | JObj "(string \<times> json) list"

datatype provider = NASA_POWER | PVGIS

datatype py_error =
    KeyError
  | TypeError
  | AttributeError
  | ValueError
  | GEOSException
  | CRSError
  | HTTPException int provider int

fun py_get :: "json \<Rightarrow> string \<Rightarrow> json \<Rightarrow> py_error + json" where
  \<comment> \<open>\<open>x.get(k, d)\<close>: only a dictionary has the method.\<close>
  "py_get (JObj kvs) k d = Inr (case map_of kvs k of None \<Rightarrow> d | Some v \<Rightarrow> v)"
| "py_get _ k d = Inl AttributeError"

fun py_item :: "json \<Rightarrow> string \<Rightarrow> py_error + json" where
  \<comment> \<open>\<open>x[k]\<close> with a string key.\<close>
  "py_item (JObj kvs) k = (case map_of kvs k of None \<Rightarrow> Inl KeyError | Some v \<Rightarrow> Inr v)"
| "py_item _ k = Inl TypeError"

fun item_path :: "json \<Rightarrow> string list \<Rightarrow> py_error + json" where
  \<comment> \<open>\<open>x[k1][k2]...\<close>\<close>
  "item_path v [] = Inr v"
| "item_path v (k # ks) = (case py_item v k of Inl e \<Rightarrow> Inl e | Inr w \<Rightarrow> item_path w ks)"

fun collect :: "('a \<Rightarrow> py_error + 'b) \<Rightarrow> 'a list \<Rightarrow> py_error + 'b list" where
  \<comment> \<open>A list comprehension whose element expression may raise.\<close>
  "collect f [] = Inr []"
| "collect f (x # xs) =
     (case f x of
        Inl e \<Rightarrow> Inl e
      | Inr y \<Rightarrow> (case collect f xs of Inl e \<Rightarrow> Inl e | Inr ys \<Rightarrow> Inr (y # ys)))"

fun truthy :: "json \<Rightarrow> bool" where
  "truthy JNull = False"
| "truthy (JBool b) = b"
| "truthy (JNum x) = (x \<noteq> 0)"
| "truthy (JStr s) = (s \<noteq> [])"
| "truthy (JArr vs) = (vs \<noteq> [])"
| "truthy (JObj kvs) = (kvs \<noteq> [])"

fun is_number :: "json \<Rightarrow> bool" where
  \<comment> \<open>\<open>isinstance(v, (int, float))\<close>; \<open>bool\<close> is a subclass of \<open>int\<close>.\<close>
  "is_number (JNum x) = True"
| "is_number (JBool b) = True"
| "is_number _ = False"

fun to_float :: "json \<Rightarrow> real" where
  \<comment> \<open>\<open>float(v)\<close>, used on numbers only.\<close>
  "to_float (JNum x) = x"
| "to_float (JBool b) = of_bool b"
| "to_float _ = 0"

section \<open>Climatology: \<open>annual\<close> and \<open>fetch_power_irradiance\<close>\<close>

definition month_days :: "(string \<times> nat) list" where
  "month_days =
     [(''JAN'', 31), (''FEB'', 28), (''MAR'', 31), (''APR'', 30), (''MAY'', 31), (''JUN'', 30),
      (''JUL'', 31), (''AUG'', 31), (''SEP'', 30), (''OCT'', 31), (''NOV'', 30), (''DEC'', 31)]"

fun mul_days :: "json \<Rightarrow> nat \<Rightarrow> py_error + json" where
  \<comment> \<open>\<open>v * days[i]\<close>: a number is multiplied, a string or a list is repeated.\<close>
  "mul_days (JNum x) d = Inr (JNum (x * of_nat d))"
| "mul_days (JBool b) d = Inr (JNum (of_bool b * of_nat d))"
| "mul_days (JStr s) d = Inr (JStr (concat (replicate d s)))"
| "mul_days (JArr vs) d = Inr (JArr (concat (replicate d vs)))"
| "mul_days (JObj kvs) d = Inl TypeError"
| "mul_days JNull d = Inl TypeError"

fun annual_vals :: "(string \<times> json) list \<Rightarrow> (string \<times> nat) list \<Rightarrow> py_error + json list" where
  \<comment> \<open>The loop over the months, filling \<open>vals\<close>.\<close>
  "annual_vals monthly [] = Inr []"
| "annual_vals monthly ((m, d) # rest) =
     (case map_of monthly m of
        None \<Rightarrow> annual_vals monthly rest
      | Some JNull \<Rightarrow> annual_vals monthly rest
      | Some v \<Rightarrow>
          (case mul_days v d of
             Inl e \<Rightarrow> Inl e
           | Inr p \<Rightarrow>
               (case annual_vals monthly rest of
                  Inl e \<Rightarrow> Inl e
                | Inr ps \<Rightarrow> Inr (p # ps))))"

fun py_sum :: "real \<Rightarrow> json list \<Rightarrow> py_error + real" where
  \<comment> \<open>\<open>sum(vals)\<close>, from the running total: adding a string or a list to a number raises.\<close>
  "py_sum acc [] = Inr acc"
| "py_sum acc (v # vs) = (if is_number v then py_sum (acc + to_float v) vs else Inl TypeError)"

definition annual :: "json \<Rightarrow> string \<Rightarrow> py_error + real option" where
  "annual params param_key =
     (case py_get params param_key (JObj []) of
        Inl e \<Rightarrow> Inl e
      | Inr monthly \<Rightarrow>
          if \<not> truthy monthly then Inr None
          else (case monthly of
                  JObj kvs \<Rightarrow>
                    (case annual_vals kvs month_days of
                       Inl e \<Rightarrow> Inl e
                     | Inr vals \<Rightarrow>
                         if vals = [] then Inr None
                         else (case py_sum 0 vals of
                                 Inl e \<Rightarrow> Inl e
                               | Inr s \<Rightarrow> Inr (Some s)))
                | _ \<Rightarrow> Inl AttributeError))"

text \<open>
  The two providers and the projection library are the parameters of the model: a
  \<open>world\<close> answers each outbound request with a status code and a decoded body, says which
  EPSG codes \<open>CRS.from_epsg\<close> knows (it raises on the others), and gives the transformer
  of each. A failed connection and a body that is not JSON are outside the model.
\<close>

record http_reply =
  status_code :: int
  body :: json

record world =
  crs_known :: "int \<Rightarrow> bool"
  transformer :: "int \<Rightarrow> point \<Rightarrow> point"
  power_api :: "real \<Rightarrow> real \<Rightarrow> http_reply"
  pvgis_api :: "real \<Rightarrow> real \<Rightarrow> real \<Rightarrow> real \<Rightarrow> real \<Rightarrow> real \<Rightarrow> http_reply"

datatype ext_call =
    PowerCall real real
  | PvgisCall real real real real real real

record irradiance =
  GHI_kWh_m2_yr :: "real option"
  DNI_kWh_m2_yr :: "real option"
  DHI_kWh_m2_yr :: "real option"

definition power_params :: "json \<Rightarrow> py_error + json" where
  \<comment> \<open>\<open>data.get("properties", {}).get("parameter", {})\<close>\<close>
  "power_params data =
     (case py_get data ''properties'' (JObj []) of
        Inl e \<Rightarrow> Inl e
      | Inr props \<Rightarrow> py_get props ''parameter'' (JObj []))"

definition fetch_power_irradiance ::
  "world \<Rightarrow> real \<Rightarrow> real \<Rightarrow> ext_call list \<times> (py_error + irradiance)" where
  \<comment> \<open>The first component is the list of outbound requests made, in order.\<close>
  "fetch_power_irradiance w la lo =
     (let r = power_api w la lo
      in ([PowerCall la lo],
          if status_code r \<noteq> 200 then Inl (HTTPException 502 NASA_POWER (status_code r))
          else (case power_params (body r) of
                  Inl e \<Rightarrow> Inl e
                | Inr params \<Rightarrow>
                    (case annual params ''ALLSKY_SFC_SW_DWN'' of
                       Inl e \<Rightarrow> Inl e
                     | Inr ghi \<Rightarrow>
                         (case annual params ''DNI'' of
                            Inl e \<Rightarrow> Inl e
                          | Inr dni \<Rightarrow>
                              (case annual params ''DHI'' of
                                 Inl e \<Rightarrow> Inl e
                               | Inr dhi \<Rightarrow>
                                   Inr \<lparr>GHI_kWh_m2_yr = ghi, DNI_kWh_m2_yr = dni,
                                        DHI_kWh_m2_yr = dhi\<rparr>))))))"

section \<open>PV simulation: \<open>pvgis_energy\<close>\<close>

definition digit_chars :: string where
  "digit_chars = ''0123456789''"

fun py_str :: "nat \<Rightarrow> string" where
  \<comment> \<open>\<open>str(i)\<close> on a natural number: its decimal digits.\<close>
  "py_str n =
     (if n < 10 then [digit_chars ! n]
      else py_str (n div 10) @ [digit_chars ! (n mod 10)])"

declare py_str.simps [simp del]

definition month_keys :: "string list" where
  \<comment> \<open>\<open>str(i) for i in range(1, 13)\<close>\<close>
  "month_keys = map py_str [1..<13]"

definition pvgis_keyed :: "json \<Rightarrow> py_error + json list" where
  \<comment> \<open>The body of the first \<open>try\<close>: the shape keyed by month number.\<close>
  "pvgis_keyed data =
     collect
       (\<lambda>k. case item_path data [''outputs'', ''monthly'', ''fixed'', ''E_d'', k] of
               Inl e \<Rightarrow> Inl e
             | Inr m \<Rightarrow> py_get m ''E_m'' JNull)
       month_keys"

definition pvgis_monthly_list :: "json \<Rightarrow> py_error + json" where
  \<comment> \<open>\<open>data.get("outputs", {}).get("monthly", {}).get("fixed", [])\<close>\<close>
  "pvgis_monthly_list data =
     (case py_get data ''outputs'' (JObj []) of
        Inl e \<Rightarrow> Inl e
      | Inr outs \<Rightarrow>
          (case py_get outs ''monthly'' (JObj []) of
             Inl e \<Rightarrow> Inl e
           | Inr mo \<Rightarrow> py_get mo ''fixed'' (JArr [])))"

fun is_list :: "json \<Rightarrow> bool" where
  \<comment> \<open>\<open>isinstance(v, list)\<close>\<close>
  "is_list (JArr vs) = True"
| "is_list _ = False"

definition pvgis_fallback :: "json \<Rightarrow> py_error + json list" where
  \<comment> \<open>The handler of the first \<open>try\<close>: the array shape. What it raises is not caught.\<close>
  "pvgis_fallback data =
     (case pvgis_monthly_list data of
        Inl e \<Rightarrow> Inl e
      | Inr monthly_list \<Rightarrow>
          (case monthly_list of
             JArr ms \<Rightarrow> collect (\<lambda>m. py_get m ''E_m'' JNull) ms
           | _ \<Rightarrow> Inr (replicate 12 JNull)))"

definition pvgis_monthly :: "json \<Rightarrow> py_error + json list" where
  "pvgis_monthly data =
     (case pvgis_keyed data of Inr ms \<Rightarrow> Inr ms | Inl e \<Rightarrow> pvgis_fallback data)"

definition pvgis_annual :: "json \<Rightarrow> json list \<Rightarrow> json" where
  \<comment> \<open>The second \<open>try\<close>: the provider's total, else the sum of the numeric monthly values.\<close>
  "pvgis_annual data raw =
     (case item_path data [''outputs'', ''totals'', ''fixed'', ''E_y''] of
        Inr a \<Rightarrow> a
      | Inl e \<Rightarrow> JNum (sum_list (map to_float (filter is_number raw))))"

definition zero_fill :: "json \<Rightarrow> real" where
  \<comment> \<open>\<open>float(v) if isinstance(v, (int, float)) else 0.0\<close>\<close>
  "zero_fill v = (if is_number v then to_float v else 0)"

definition pvgis_parse :: "json \<Rightarrow> py_error + real list \<times> real \<times> json" where
  \<comment> \<open>Lines 96 to 113: monthly and annual energy out of the decoded body.\<close>
  "pvgis_parse data =
     (case pvgis_monthly data of
        Inl e \<Rightarrow> Inl e
      | Inr raw \<Rightarrow>
          (let yearly = pvgis_annual data raw;
               monthly = map zero_fill raw
           in Inr (monthly,
                   (if is_number yearly then to_float yearly else sum_list monthly),
                   data)))"

definition pvgis_energy ::
  "world \<Rightarrow> real \<Rightarrow> real \<Rightarrow> real \<Rightarrow> real \<Rightarrow> real \<Rightarrow> real
     \<Rightarrow> ext_call list \<times> (py_error + real list \<times> real \<times> json)" where
  "pvgis_energy w la lo tilt az peak_kw losses =
     (let aspect = 180 - az;
          r = pvgis_api w la lo peak_kw losses tilt aspect
      in ([PvgisCall la lo peak_kw losses tilt aspect],
          if status_code r \<noteq> 200 then Inl (HTTPException 502 PVGIS (status_code r))
          else pvgis_parse (body r)))"

section \<open>The polygon step\<close>

text \<open>
  Lines 128 and 129 of \<open>estimate\<close>: \<open>shape\<close> builds the geometry library's polygon from the
  rings of the request, and the call of \<open>polygon_area_m2\<close> measures it. Both can raise, and
  nothing catches what they raise.
\<close>

record polygon_geom =
  exterior :: ring
  interiors :: "ring list"

definition linear_ring_ok :: "ring \<Rightarrow> bool" where
  \<comment> \<open>A ring is closed by repeating its first position when the last one differs; the
      library refuses a ring that has fewer than 4 positions after that.\<close>
  "linear_ring_ok r \<longleftrightarrow> r \<noteq> [] \<and> 4 \<le> length r + (if hd r = last r then 0 else 1)"

definition shape :: "GeoJSONPolygon \<Rightarrow> py_error + polygon_geom" where
  \<comment> \<open>\<open>shape(...)\<close>: coordinates without any position give the empty polygon; otherwise
      the first ring is the exterior, the others are interior rings, and a ring the library
      refuses raises \<open>ValueError\<close>.\<close>
  "shape g =
     (case coordinates g of
        [] \<Rightarrow> Inr \<lparr>exterior = [], interiors = []\<rparr>
      | shell # holes \<Rightarrow>
          if list_all (\<lambda>r. r = []) (shell # holes) then Inr \<lparr>exterior = [], interiors = []\<rparr>
          else if list_all linear_ring_ok (shell # holes)
          then Inr \<lparr>exterior = shell, interiors = holes\<rparr>
          else Inl ValueError)"

definition poly_centroid :: "polygon_geom \<Rightarrow> point" where
  \<comment> \<open>The library's centroid of a polygon: that of the exterior ring when there is no
      interior ring, and otherwise the centroid of what is left of the exterior once the
      interior rings are cut out, each ring weighing its area.\<close>
  "poly_centroid p =
     (if interiors p = [] then ring_centroid (exterior p)
      else
        (let a = planar_area (exterior p) - (\<Sum>h\<leftarrow>interiors p. planar_area h)
         in ((planar_area (exterior p) * fst (ring_centroid (exterior p))
                - (\<Sum>h\<leftarrow>interiors p. planar_area h * fst (ring_centroid h))) / a,
             (planar_area (exterior p) * snd (ring_centroid (exterior p))
                - (\<Sum>h\<leftarrow>interiors p. planar_area h * snd (ring_centroid h))) / a)))"

definition polygon_crs :: "polygon_geom \<Rightarrow> int" where
  \<comment> \<open>\<open>utm_crs_for_lon(centroid.x, centroid.y)\<close>: the EPSG code asked for.\<close>
  "polygon_crs p = utm_crs_for_lon (fst (poly_centroid p)) (snd (poly_centroid p))"

definition area_of_polygon :: "world \<Rightarrow> polygon_geom \<Rightarrow> py_error + real" where
  \<comment> \<open>The call \<open>polygon_area_m2(poly)\<close> with what the libraries raise in it: \<open>centroid.x\<close> on
      the empty polygon, and \<open>CRS.from_epsg\<close> on a code it does not know. The library
      subtracts the areas of the interior rings from that of the exterior.\<close>
  "area_of_polygon w p =
     (if exterior p = [] then Inl GEOSException
      else if \<not> crs_known w (polygon_crs p) then Inl CRSError
      else if interiors p = [] then Inr (polygon_area_m2 (transformer w) (exterior p))
      else Inr (planar_area (map (transformer w (polygon_crs p)) (exterior p))
                - (\<Sum>h\<leftarrow>interiors p. planar_area (map (transformer w (polygon_crs p)) h))))"

section \<open>The endpoint: \<open>estimate\<close>\<close>

record segment =
  seg_id :: string
  seg_area_m2 :: real
  seg_tilt_deg :: real
  seg_azimuth_deg :: real

record assumptions =
  a_panel_area_m2 :: real
  a_packing_ratio :: real
  a_tilt_deg :: real
  a_azimuth_deg :: real
  a_losses_percent :: real

record response =
  imageryQuality :: string
  panelCapacityWatts :: int
  maxArrayPanelsCount :: int
  recommendedPanelCount :: int
  capacityKw :: real
  annualKwh :: real
  monthlyKwh :: "real list"
  roofSegments :: "segment list"
  irradianceStats :: irradiance
  assumed :: assumptions
  dataSources :: "string list"

definition roof_area :: "world \<Rightarrow> EstimateRequest \<Rightarrow> py_error + real option" where
  \<comment> \<open>\<open>total_area\<close>: the area of the polygon when the request has one; the polygon step
      may raise.\<close>
  "roof_area w req =
     (case polygon req of
        None \<Rightarrow> Inr None
      | Some g \<Rightarrow>
          (case shape g of
             Inl e \<Rightarrow> Inl e
           | Inr poly \<Rightarrow>
               (case area_of_polygon w poly of
                  Inl e \<Rightarrow> Inl e
                | Inr area_m2 \<Rightarrow> Inr (Some area_m2))))"

definition estimate :: "world \<Rightarrow> EstimateRequest \<Rightarrow> ext_call list \<times> (py_error + response)" where
  \<comment> \<open>The first component is the list of outbound requests made, in order: none when the
      polygon step raises.\<close>
  "estimate w req =
     (case roof_area w req of
        Inl e \<Rightarrow> ([], Inl e)
      | Inr total_area \<Rightarrow>
     (let la = lat req; lo = lon req;
          tilt = (case tilt_deg req of Some t \<Rightarrow> t | None \<Rightarrow> default_tilt la);
          az = (case azimuth_deg req of Some a \<Rightarrow> a | None \<Rightarrow> default_azimuth la);
          pw = or_default (panel_watts req) 400;
          panel_area = or_default (panel_area_m2 req) (195 / 100);
          pack = or_default (packing_ratio req) (85 / 100);
          losses = or_default (losses_percent req) 14;
          segments =
            (case total_area of
               None \<Rightarrow> []
             | Some a \<Rightarrow>
                 [\<lparr>seg_id = ''seg_0'', seg_area_m2 = py_round_nd a 2,
                   seg_tilt_deg = py_round_nd tilt 2, seg_azimuth_deg = py_round_nd az 1\<rparr>]);
          s = size_array total_area req
      in case fetch_power_irradiance w la lo of
           (c1, Inl e) \<Rightarrow> (c1, Inl e)
         | (c1, Inr irr) \<Rightarrow>
             (case pvgis_energy w la lo tilt az (sz_system_kw s) losses of
                (c2, Inl e) \<Rightarrow> (c1 @ c2, Inl e)
              | (c2, Inr (monthly_kwh, annual_kwh, raw)) \<Rightarrow>
                  (c1 @ c2,
                   Inr \<lparr>imageryQuality = ''EXTERNAL'',
                        panelCapacityWatts = pw,
                        maxArrayPanelsCount = reported_max_panels s,
                        recommendedPanelCount = sz_rec_panels s,
                        capacityKw = py_round_nd (sz_system_kw s) 3,
                        annualKwh = py_round_nd annual_kwh 1,
                        monthlyKwh = map (\<lambda>v. py_round_nd v 1) monthly_kwh,
                        roofSegments = segments,
                        irradianceStats = irr,
                        assumed =
                          \<lparr>a_panel_area_m2 = panel_area, a_packing_ratio = pack,
                           a_tilt_deg = tilt, a_azimuth_deg = az,
                           a_losses_percent = losses\<rparr>,
                        dataSources = [''NASA POWER Climatology'', ''PVGIS v5_2 PVcalc'']\<rparr>))))"

text \<open>
  A world for concrete runs: both providers answer 200 with an empty object, every EPSG
  code is known, and the projection leaves every position where it is.
\<close>

definition quiet_world :: world where
  "quiet_world =
     \<lparr>crs_known = (\<lambda>crs. True),
      transformer = (\<lambda>crs p. p),
      power_api = (\<lambda>la lo. \<lparr>status_code = 200, body = JObj []\<rparr>),
      pvgis_api = (\<lambda>la lo peak loss tilt aspect. \<lparr>status_code = 200, body = JObj []\<rparr>)\<rparr>"

definition plain_request :: "real \<Rightarrow> real \<Rightarrow> EstimateRequest" where
  \<comment> \<open>A request with coordinates only: every optional field at its default.\<close>
  "plain_request la lo =
     \<lparr>lat = la, lon = lo, polygon = None, tilt_deg = None, azimuth_deg = None,
      system_kw = None, panel_watts = Some 400, panel_area_m2 = Some (195 / 100),
      packing_ratio = Some (85 / 100), losses_percent = Some 14\<rparr>"

definition eff_tilt :: "EstimateRequest \<Rightarrow> real" where
  \<comment> \<open>The tilt \<open>estimate\<close> works with.\<close>
  "eff_tilt req = (case tilt_deg req of Some t \<Rightarrow> t | None \<Rightarrow> default_tilt (lat req))"

definition eff_azimuth :: "EstimateRequest \<Rightarrow> real" where
  \<comment> \<open>The azimuth \<open>estimate\<close> works with.\<close>
  "eff_azimuth req =
     (case azimuth_deg req of Some a \<Rightarrow> a | None \<Rightarrow> default_azimuth (lat req))"

definition present_months ::
  "(string \<times> json) list \<Rightarrow> (string \<times> nat) list \<Rightarrow> (json \<times> nat) list" where
  \<comment> \<open>The months of \<open>md\<close> with a value other than \<open>None\<close> in the mapping, with their day counts.\<close>
  "present_months monthly md =
     concat (map (\<lambda>(m, d). case map_of monthly m of
                                None \<Rightarrow> []
                              | Some v \<Rightarrow> if v = JNull then [] else [(v, d)]) md)"



definition month_value :: "(string \<times> json) list \<Rightarrow> json" where
  \<comment> \<open>\<open>m.get("E_m", None)\<close> on the dictionary of a month.\<close>
  "month_value m = (case map_of m ''E_m'' of None \<Rightarrow> JNull | Some v \<Rightarrow> v)"



subsection \<open>Concrete inputs\<close>

definition unit_square :: GeoJSONPolygon where
  "unit_square = \<lparr>coordinates = [[(0, 0), (1, 0), (1, 1), (0, 1), (0, 0)]]\<rparr>"

definition small_roof_request :: EstimateRequest where
  "small_roof_request = (plain_request 0 0)\<lparr>polygon := Some unit_square\<rparr>"

definition collapsed_ring :: ring where
  \<comment> \<open>Four positions, two of them distinct.\<close>
  "collapsed_ring = [(0, 0), (1, 1), (0, 0), (0, 0)]"

definition collapsed_polygon :: GeoJSONPolygon where
  "collapsed_polygon = \<lparr>coordinates = [collapsed_ring]\<rparr>"

definition collapsed_request :: EstimateRequest where
  "collapsed_request = (plain_request 0 0)\<lparr>polygon := Some collapsed_polygon\<rparr>"






text \<open>The facts that evaluate the month keys of the keyed shape.\<close>

lemmas month_keys_eval = month_keys_def py_str.simps digit_chars_def upt_rec

section \<open>The projection selector\<close>

lemma utm_zone_range:
  assumes "- 180 \<le> lo" and "lo < 180"
  shows "1 \<le> utm_zone lo \<and> utm_zone lo \<le> 60"
proof -
  have "0 \<le> (lo + 180) / 6" using assms(1) by simp
  then have a: "0 \<le> \<lfloor>(lo + 180) / 6\<rfloor>" by simp
  have "(lo + 180) / 6 < 60" using assms(2) by simp
  then have b: "\<lfloor>(lo + 180) / 6\<rfloor> < 60" by (simp add: floor_less_iff)
  show ?thesis using a b by (simp add: utm_zone_def)
qed

text \<open>
  C4. The claim: for every longitude in [-180, 180] the zone index is
  floor((lon + 180) / 6) + 1 and lies in [1, 60]. The code evaluated at longitude 180, the
  closed upper end of that range: the zone index is 61, and the EPSG code is 32661 (north)
  or 32761 (south), neither of which is one of the sixty zones. Below 180 the index is in
  range (\<open>utm_zone_range\<close>).
\<close>

theorem utm_zone_at_180:
  "utm_zone 180 = 61 \<and> utm_crs_for_lon 180 0 = 32661 \<and> utm_crs_for_lon 180 (-1) = 32761"
  by (simp add: utm_zone_def utm_crs_for_lon_def utm_south_def)

section \<open>Sizing\<close>

lemma py_int_floor: "0 \<le> x \<Longrightarrow> py_int x = \<lfloor>x\<rfloor>"
  by (simp add: py_int_def)

text \<open>
  C1, as amended. For a request that meets the field constraints and a roof area that is
  not negative: \<open>max_panels\<close> is absent without an area and also when the area is exactly 0;
  for any other area it is present and equals floor(area * packing_ratio / panel_area_m2).
  The reported \<open>maxArrayPanelsCount\<close> is that floor when \<open>max_panels\<close> is present, and the
  recommended panel count otherwise.
\<close>

theorem max_panels_present:
  assumes "valid_request req" and "0 \<le> a"
  shows "sz_max_panels (size_array None req) = None \<and>
         sz_max_panels (size_array (Some a) req) =
           (if a = 0 then None
            else Some \<lfloor>a * or_default (packing_ratio req) (85 / 100)
                          / or_default (panel_area_m2 req) (195 / 100)\<rfloor>) \<and>
         reported_max_panels (size_array (Some a) req) =
           (if a = 0 then sz_rec_panels (size_array (Some a) req)
            else \<lfloor>a * or_default (packing_ratio req) (85 / 100)
                     / or_default (panel_area_m2 req) (195 / 100)\<rfloor>)"
proof -
  have pk: "0 < or_default (packing_ratio req) (85 / 100)"
    using assms(1)
    by (auto simp: valid_request_def in_range_def or_default_def split: option.splits)
  have pa: "0 < or_default (panel_area_m2 req) (195 / 100)"
    using assms(1)
    by (auto simp: valid_request_def in_range_def or_default_def split: option.splits)
  have "0 \<le> a * or_default (packing_ratio req) (85 / 100)
              / or_default (panel_area_m2 req) (195 / 100)"
    using pk pa assms(2) by simp
  then show ?thesis
    by (simp add: size_array_def max_panels_of_def truthy_num_def Let_def py_int_floor
        reported_max_panels_def)
qed

text \<open>The amended C1 at a roof of 100 square metres with the default panel: 43 panels.\<close>

theorem max_panels_present_witness:
  "valid_request (plain_request 0 0) \<and> (0::real) \<le> 100 \<and>
   sz_max_panels (size_array None (plain_request 0 0)) = None \<and>
   sz_max_panels (size_array (Some 100) (plain_request 0 0)) = Some 43 \<and>
   reported_max_panels (size_array (Some 100) (plain_request 0 0)) = 43"
  using max_panels_present [of "plain_request 0 0" 100]
  by (simp add: valid_request_def in_range_def plain_request_def or_default_def)

text \<open>
  C1 as stated fails: with a roof area that is known and equal to 0, \<open>max_panels\<close> is absent,
  and the count reported in its place is the recommended one, 8.
\<close>

theorem max_panels_zero_area:
  "sz_max_panels (size_array (Some 0) (plain_request 0 0)) = None \<and>
   reported_max_panels (size_array (Some 0) (plain_request 0 0)) = 8"
  by (simp add: size_array_def max_panels_of_def plain_request_def truthy_num_def
      or_default_def reported_max_panels_def py_round_def Let_def)

text \<open>
  C2. With a user-supplied capacity \<open>k > 0\<close>, whatever the roof area: \<open>system_kw\<close> is \<open>k\<close>, the
  recommended panel count is round(k * 1000 / panel_watts), and \<open>max_panels\<close> is the value
  computed from the area alone, the one the same request has without the capacity; it is
  reported as it is when present (never clamped against the recommended count).
\<close>

theorem user_capacity_sizing:
  assumes "system_kw req = Some k" and "0 < k"
  shows "sz_system_kw (size_array total_area req) = k \<and>
         sz_rec_panels (size_array total_area req) =
           py_round (k * 1000 / of_int (or_default (panel_watts req) 400)) \<and>
         sz_max_panels (size_array total_area req) = max_panels_of total_area req \<and>
         sz_max_panels (size_array total_area req) =
           sz_max_panels (size_array total_area (req\<lparr>system_kw := None\<rparr>)) \<and>
         reported_max_panels (size_array total_area req) =
           (case max_panels_of total_area req of
              Some n \<Rightarrow> n
            | None \<Rightarrow> py_round (k * 1000 / of_int (or_default (panel_watts req) 400)))"
proof -
  have m: "sz_max_panels (size_array total_area r) = max_panels_of total_area r" for r
    by (simp add: size_array_def Let_def)
  have u: "max_panels_of total_area (req\<lparr>system_kw := None\<rparr>) = max_panels_of total_area req"
    by (simp add: max_panels_of_def)
  show ?thesis
    using assms
    by (simp add: m u) (simp add: size_array_def truthy_num_def Let_def
        reported_max_panels_def split: option.splits)
qed

text \<open>
  C2 at 10 kW on a roof of 10 square metres: 25 panels recommended, 4 fit, and both
  numbers are in the result.
\<close>

theorem user_capacity_sizing_witness:
  "system_kw ((plain_request 0 0)\<lparr>system_kw := Some 10\<rparr>) = Some 10 \<and> (0::real) < 10 \<and>
   sz_system_kw (size_array (Some 10) ((plain_request 0 0)\<lparr>system_kw := Some 10\<rparr>)) = 10 \<and>
   sz_rec_panels (size_array (Some 10) ((plain_request 0 0)\<lparr>system_kw := Some 10\<rparr>)) = 25 \<and>
   sz_max_panels (size_array (Some 10) ((plain_request 0 0)\<lparr>system_kw := Some 10\<rparr>)) = Some 4 \<and>
   reported_max_panels (size_array (Some 10) ((plain_request 0 0)\<lparr>system_kw := Some 10\<rparr>)) = 4"
  using user_capacity_sizing [of "(plain_request 0 0)\<lparr>system_kw := Some 10\<rparr>" 10 "Some 10"]
  by (simp add: plain_request_def or_default_def py_round_def max_panels_of_def truthy_num_def
      py_int_def Let_def)

text \<open>
  C3, as amended. Without a user-supplied capacity: if \<open>max_panels\<close> is present and not 0,
  the recommended count is \<open>max_panels\<close> and \<open>system_kw\<close> is that count times \<open>panel_watts\<close>
  over 1000; if it is absent or 0, \<open>system_kw\<close> is 3.0 and the recommended count is
  round(3000 / panel_watts).
\<close>

theorem derived_sizing:
  assumes "system_kw req = None"
  shows "(case sz_max_panels (size_array total_area req) of
            Some n \<Rightarrow>
              if n \<noteq> 0
              then sz_rec_panels (size_array total_area req) = n \<and>
                   sz_system_kw (size_array total_area req) =
                     of_int n * of_int (or_default (panel_watts req) 400) / 1000
              else sz_system_kw (size_array total_area req) = 3 \<and>
                   sz_rec_panels (size_array total_area req) =
                     py_round (3000 / of_int (or_default (panel_watts req) 400))
          | None \<Rightarrow>
              sz_system_kw (size_array total_area req) = 3 \<and>
              sz_rec_panels (size_array total_area req) =
                py_round (3000 / of_int (or_default (panel_watts req) 400)))"
  using assms
  by (simp add: size_array_def truthy_num_def Let_def split: option.splits)

text \<open>
  The amended C3 on a roof of 100 square metres (43 panels, 17.2 kW) and without a roof
  (3 kW, 8 panels).
\<close>

theorem derived_sizing_witness:
  "system_kw (plain_request 0 0) = None \<and>
   sz_max_panels (size_array (Some 100) (plain_request 0 0)) = Some 43 \<and>
   sz_rec_panels (size_array (Some 100) (plain_request 0 0)) = 43 \<and>
   sz_system_kw (size_array (Some 100) (plain_request 0 0)) = 172 / 10 \<and>
   sz_max_panels (size_array None (plain_request 0 0)) = None \<and>
   sz_system_kw (size_array None (plain_request 0 0)) = 3 \<and>
   sz_rec_panels (size_array None (plain_request 0 0)) = 8"
  using derived_sizing [of "plain_request 0 0" "Some 100"]
    derived_sizing [of "plain_request 0 0" None]
  by (simp add: plain_request_def or_default_def py_round_def max_panels_of_def truthy_num_def
      py_int_def Let_def size_array_def)

text \<open>
  C3 as stated fails: on a roof of 1 square metre \<open>max_panels\<close> is present with the value 0,
  yet 8 panels are recommended and \<open>system_kw\<close> is 3.
\<close>

theorem derived_sizing_zero_panels:
  "system_kw (plain_request 0 0) = None \<and>
   sz_max_panels (size_array (Some 1) (plain_request 0 0)) = Some 0 \<and>
   sz_rec_panels (size_array (Some 1) (plain_request 0 0)) = 8 \<and>
   sz_system_kw (size_array (Some 1) (plain_request 0 0)) = 3"
  by (simp add: size_array_def max_panels_of_def plain_request_def truthy_num_def
      or_default_def py_round_def py_int_def Let_def)

section \<open>The endpoint and its outbound requests\<close>

lemma fst_fetch_power: "fst (fetch_power_irradiance w la lo) = [PowerCall la lo]"
  by (simp add: fetch_power_irradiance_def Let_def)

lemma fst_pvgis_energy:
  "fst (pvgis_energy w la lo tilt az kw losses) = [PvgisCall la lo kw losses tilt (180 - az)]"
  by (simp add: pvgis_energy_def Let_def)

lemma roof_area_no_polygon: "polygon req = None \<Longrightarrow> roof_area w req = Inr None"
  by (simp add: roof_area_def)

text \<open>When the polygon step raises, the endpoint fails with what it raised and no outbound
  request is made.\<close>

lemma polygon_failure_no_call: "roof_area w req = Inl e \<Longrightarrow> estimate w req = ([], Inl e)"
  by (simp add: estimate_def)

lemma estimate_calls:
  assumes ta: "roof_area w req = Inr ta"
  shows "fst (estimate w req) =
     PowerCall (lat req) (lon req) #
     (if isl (snd (fetch_power_irradiance w (lat req) (lon req))) then []
      else [PvgisCall (lat req) (lon req) (sz_system_kw (size_array ta req))
              (or_default (losses_percent req) 14) (eff_tilt req) (180 - eff_azimuth req)])"
proof (cases "fetch_power_irradiance w (lat req) (lon req)")
  case (Pair c1 r1)
  then have c1: "c1 = [PowerCall (lat req) (lon req)]"
    using fst_fetch_power [of w "lat req" "lon req"] by simp
  show ?thesis
  proof (cases r1)
    case (Inl e)
    with Pair c1 ta show ?thesis by (simp add: estimate_def Let_def)
  next
    case (Inr irr)
    obtain c2 r2 where p2:
      "pvgis_energy w (lat req) (lon req) (eff_tilt req) (eff_azimuth req)
         (sz_system_kw (size_array ta req)) (or_default (losses_percent req) 14) = (c2, r2)"
      by (cases "pvgis_energy w (lat req) (lon req) (eff_tilt req) (eff_azimuth req)
         (sz_system_kw (size_array ta req)) (or_default (losses_percent req) 14)")
    then have c2:
      "c2 = [PvgisCall (lat req) (lon req) (sz_system_kw (size_array ta req))
               (or_default (losses_percent req) 14) (eff_tilt req) (180 - eff_azimuth req)]"
      using fst_pvgis_energy [of w "lat req" "lon req" "eff_tilt req" "eff_azimuth req"
          "sz_system_kw (size_array ta req)" "or_default (losses_percent req) 14"]
      by simp
    from Pair Inr p2 c1 c2 ta show ?thesis
      by (cases r2)
        (auto simp add: estimate_def Let_def eff_tilt_def eff_azimuth_def split: prod.splits)
  qed
qed

lemma estimate_fails_iff:
  assumes "roof_area w req = Inr ta"
  shows "isl (snd (estimate w req)) \<longleftrightarrow>
     isl (snd (fetch_power_irradiance w (lat req) (lon req))) \<or>
     isl (snd (pvgis_energy w (lat req) (lon req) (eff_tilt req) (eff_azimuth req)
        (sz_system_kw (size_array ta req)) (or_default (losses_percent req) 14)))"
  using assms
  by (auto simp add: estimate_def Let_def eff_tilt_def eff_azimuth_def
      split: prod.splits sum.splits)

lemma estimate_reports_sizing:
  assumes "snd (estimate w req) = Inr resp"
  shows "\<exists>ta. roof_area w req = Inr ta \<and>
         recommendedPanelCount resp = sz_rec_panels (size_array ta req) \<and>
         maxArrayPanelsCount resp = reported_max_panels (size_array ta req) \<and>
         capacityKw resp = py_round_nd (sz_system_kw (size_array ta req)) 3"
  using assms
  by (auto simp add: estimate_def Let_def split: prod.splits sum.splits)

text \<open>
  C5, as amended. The engine does not validate the request's longitude and latitude: for
  every request whose polygon step returns (a request without a polygon is one), with
  coordinates in range or not, the first outbound request is the one to the climatology
  provider, made with the request's own latitude and longitude.
\<close>

theorem no_coordinate_check:
  assumes "roof_area w req = Inr total_area"
  shows "take 1 (fst (estimate w req)) = [PowerCall (lat req) (lon req)]"
  by (simp add: estimate_calls [OF assms])

text \<open>The amended C5 on a request without a polygon at longitude 200.\<close>

theorem no_coordinate_check_witness:
  "roof_area quiet_world (plain_request 0 200) = Inr None \<and>
   take 1 (fst (estimate quiet_world (plain_request 0 200))) = [PowerCall 0 200]"
proof -
  have r: "roof_area quiet_world (plain_request 0 200) = Inr None"
    by (simp add: roof_area_def plain_request_def)
  show ?thesis
    using no_coordinate_check [OF r] r by (simp add: plain_request_def)
qed

text \<open>
  C5 as stated fails: a request at longitude 200 calls both providers with that longitude
  and is answered, not refused.
\<close>

theorem out_of_range_longitude:
  "fst (estimate quiet_world (plain_request 0 200)) =
     [PowerCall 0 200, PvgisCall 0 200 3 14 10 0] \<and>
   \<not> isl (snd (estimate quiet_world (plain_request 0 200)))"
  by (simp add: estimate_def quiet_world_def plain_request_def fetch_power_irradiance_def
      pvgis_energy_def Let_def roof_area_def power_params_def annual_def default_tilt_def
      default_azimuth_def size_array_def max_panels_of_def truthy_num_def or_default_def
      pvgis_parse_def pvgis_monthly_def pvgis_keyed_def pvgis_fallback_def
      pvgis_monthly_list_def month_keys_eval)

subsection \<open>A roof too small for one panel\<close>

lemma size_array_polygon: "size_array ta (req\<lparr>polygon := p\<rparr>) = size_array ta req"
  by (simp add: size_array_def max_panels_of_def Let_def cong: if_cong)

lemma eff_polygon:
  "eff_tilt (req\<lparr>polygon := p\<rparr>) = eff_tilt req"
  "eff_azimuth (req\<lparr>polygon := p\<rparr>) = eff_azimuth req"
  by (simp_all add: eff_tilt_def eff_azimuth_def split: option.splits)

lemma small_roof_area: "roof_area quiet_world small_roof_request = Inr (Some 1)"
  by (simp add: roof_area_def small_roof_request_def plain_request_def unit_square_def
      shape_def linear_ring_ok_def area_of_polygon_def quiet_world_def polygon_area_m2_def
      planar_area_def signed_area_def ring_sum_def cross_def Let_def)

text \<open>
  C10, as amended. When a polygon is supplied and its area is exactly 0, or the panel count
  computed from it is 0, no error comes of it and the recommended count and \<open>system_kw\<close>
  are those of the request without a roof area: 3.0 kW and round(3000 / panel_watts) when
  no user capacity is given, not 0 panels. With an area of 0, \<open>max_panels\<close> is absent. With
  a count of 0 it is not: \<open>max_panels\<close> stays present with the value 0, and 0 is the
  \<open>maxArrayPanelsCount\<close> reported. The outbound requests, and whether the endpoint fails,
  are those of the same request without its polygon.
\<close>

theorem zero_roof_falls_back:
  assumes "roof_area w req = Inr (Some a)"
    and "a = 0 \<or> sz_max_panels (size_array (Some a) req) = Some 0"
  shows "sz_rec_panels (size_array (Some a) req) = sz_rec_panels (size_array None req) \<and>
         sz_system_kw (size_array (Some a) req) = sz_system_kw (size_array None req) \<and>
         (system_kw req = None \<longrightarrow>
            sz_system_kw (size_array (Some a) req) = 3 \<and>
            sz_rec_panels (size_array (Some a) req) =
              py_round (3000 / of_int (or_default (panel_watts req) 400))) \<and>
         (if a = 0 then sz_max_panels (size_array (Some a) req) = None
          else sz_max_panels (size_array (Some a) req) = Some 0 \<and>
               reported_max_panels (size_array (Some a) req) = 0) \<and>
         fst (estimate w req) = fst (estimate w (req\<lparr>polygon := None\<rparr>)) \<and>
         isl (snd (estimate w req)) = isl (snd (estimate w (req\<lparr>polygon := None\<rparr>)))"
proof -
  have s1: "sz_rec_panels (size_array (Some a) req) = sz_rec_panels (size_array None req)"
    using assms(2)
    by (auto simp add: size_array_def max_panels_of_def truthy_num_def Let_def split: if_splits)
  have s2: "sz_system_kw (size_array (Some a) req) = sz_system_kw (size_array None req)"
    using assms(2)
    by (auto simp add: size_array_def max_panels_of_def truthy_num_def Let_def split: if_splits)
  have s3: "system_kw req = None \<longrightarrow>
            sz_system_kw (size_array (Some a) req) = 3 \<and>
            sz_rec_panels (size_array (Some a) req) =
              py_round (3000 / of_int (or_default (panel_watts req) 400))"
    using assms(2)
    by (auto simp add: size_array_def max_panels_of_def truthy_num_def Let_def split: if_splits)
  have s4: "if a = 0 then sz_max_panels (size_array (Some a) req) = None
            else sz_max_panels (size_array (Some a) req) = Some 0 \<and>
                 reported_max_panels (size_array (Some a) req) = 0"
  proof (cases "a = 0")
    case True
    then show ?thesis
      by (simp add: size_array_def max_panels_of_def truthy_num_def Let_def)
  next
    case False
    then have "sz_max_panels (size_array (Some a) req) = Some 0"
      using assms(2) by simp
    then show ?thesis using False by (simp add: reported_max_panels_def)
  qed
  have ra: "roof_area w (req\<lparr>polygon := None\<rparr>) = Inr None"
    by (simp add: roof_area_def)
  have kw: "sz_system_kw (size_array (Some a) req) =
            sz_system_kw (size_array None (req\<lparr>polygon := None\<rparr>))"
    using s2 by (simp add: size_array_polygon)
  have c1: "fst (estimate w req) = fst (estimate w (req\<lparr>polygon := None\<rparr>))"
    unfolding estimate_calls [OF assms(1)] estimate_calls [OF ra] kw
    by (simp add: eff_polygon)
  have c2: "isl (snd (estimate w req)) = isl (snd (estimate w (req\<lparr>polygon := None\<rparr>)))"
    unfolding estimate_fails_iff [OF assms(1)] estimate_fails_iff [OF ra] kw
    by (simp add: eff_polygon)
  show ?thesis
    by (intro conjI s1 s2 s3 s4 c1 c2)
qed

text \<open>
  The amended C10 on a roof of 1 square metre, where no panel fits: 8 panels and 3 kW, a
  \<open>max_panels\<close> of 0, and the same outbound requests as without the polygon.
\<close>

theorem zero_roof_falls_back_witness:
  "roof_area quiet_world small_roof_request = Inr (Some 1) \<and>
   sz_max_panels (size_array (Some 1) small_roof_request) = Some 0 \<and>
   reported_max_panels (size_array (Some 1) small_roof_request) = 0 \<and>
   sz_rec_panels (size_array (Some 1) small_roof_request) = 8 \<and>
   sz_system_kw (size_array (Some 1) small_roof_request) = 3 \<and>
   fst (estimate quiet_world small_roof_request) =
     fst (estimate quiet_world (small_roof_request\<lparr>polygon := None\<rparr>))"
proof -
  have m: "sz_max_panels (size_array (Some 1) small_roof_request) = Some 0"
    by (simp add: size_array_def max_panels_of_def small_roof_request_def plain_request_def
        truthy_num_def or_default_def py_int_def Let_def)
  have n: "system_kw small_roof_request = None"
    by (simp add: small_roof_request_def plain_request_def)
  have p: "py_round (3000 / of_int (or_default (panel_watts small_roof_request) 400)) = 8"
    by (simp add: small_roof_request_def plain_request_def or_default_def py_round_def)
  show ?thesis
    using zero_roof_falls_back [OF small_roof_area disjI2, OF m] m n p small_roof_area
    by simp
qed

text \<open>
  C10 as stated fails: on the roof of 1 square metre \<open>max_panels\<close> is not absent and the
  engine does not behave as without a roof area, for it reports a \<open>maxArrayPanelsCount\<close>
  of 0 where the same request without a roof reports 8.
\<close>

theorem zero_panels_reported:
  "roof_area quiet_world small_roof_request = Inr (Some 1) \<and>
   sz_max_panels (size_array (Some 1) small_roof_request) = Some 0 \<and>
   reported_max_panels (size_array (Some 1) small_roof_request) = 0 \<and>
   sz_max_panels (size_array None small_roof_request) = None \<and>
   reported_max_panels (size_array None small_roof_request) = 8"
proof -
  have "sz_max_panels (size_array (Some 1) small_roof_request) = Some 0 \<and>
   reported_max_panels (size_array (Some 1) small_roof_request) = 0 \<and>
   sz_max_panels (size_array None small_roof_request) = None \<and>
   reported_max_panels (size_array None small_roof_request) = 8"
    by (simp add: size_array_def max_panels_of_def small_roof_request_def plain_request_def
        truthy_num_def or_default_def py_int_def py_round_def reported_max_panels_def Let_def)
  then show ?thesis using small_roof_area by simp
qed

section \<open>Polygon area: orientation and degenerate rings\<close>

lemma path_sum_snoc:
  "xs \<noteq> [] \<Longrightarrow> path_sum f (xs @ [a]) = path_sum f xs + f (last xs) a"
  by (induction f xs rule: path_sum.induct) auto

lemma path_sum_rev: "path_sum f (rev xs) = path_sum (\<lambda>p q. f q p) xs"
proof (induction xs)
  case Nil
  then show ?case by simp
next
  case (Cons a xs)
  show ?case
  proof (cases xs)
    case Nil
    then show ?thesis by simp
  next
    case (Cons b ys)
    then have ne: "rev xs \<noteq> []" and l: "last (rev xs) = b" by simp_all
    have "path_sum f (rev (a # xs)) = path_sum f (rev xs @ [a])" by simp
    also have "\<dots> = path_sum f (rev xs) + f b a"
      using path_sum_snoc [OF ne, of f a] l by simp
    also have "\<dots> = path_sum (\<lambda>p q. f q p) xs + f b a"
      using Cons.IH by simp
    also have "\<dots> = path_sum (\<lambda>p q. f q p) (a # xs)"
      using Cons by simp
    finally show ?thesis .
  qed
qed

lemma ring_sum_closed: "r \<noteq> [] \<Longrightarrow> ring_sum f r = path_sum f (r @ [hd r])"
  by (cases r) (simp_all add: ring_sum_def)

lemma ring_sum_rev: "ring_sum f (rev r) = ring_sum (\<lambda>p q. f q p) r"
proof (cases "r = []")
  case True
  then show ?thesis by (simp add: ring_sum_def)
next
  case ne: False
  then have ner: "rev r \<noteq> []" by simp
  have "ring_sum f (rev r) = path_sum f (rev r @ [last r])"
    using ring_sum_closed [OF ner, of f] ne by (simp add: hd_rev)
  also have "\<dots> = path_sum f (rev r) + f (hd r) (last r)"
    using path_sum_snoc [OF ner, of f "last r"] ne by (simp add: last_rev)
  also have "\<dots> = path_sum (\<lambda>p q. f q p) r + f (hd r) (last r)"
    by (simp add: path_sum_rev)
  also have "\<dots> = path_sum (\<lambda>p q. f q p) (r @ [hd r])"
    using path_sum_snoc [OF ne, of "\<lambda>p q. f q p" "hd r"] by simp
  also have "\<dots> = ring_sum (\<lambda>p q. f q p) r"
    using ring_sum_closed [OF ne] by simp
  finally show ?thesis .
qed

lemma path_sum_uminus: "path_sum (\<lambda>p q. - f p q) xs = - path_sum f xs"
  by (induction xs rule: induct_list012) auto

lemma ring_sum_uminus: "ring_sum (\<lambda>p q. - f p q) r = - ring_sum f r"
  by (simp add: ring_sum_def path_sum_uminus split: list.splits)

lemma cross_swap: "cross q p = - cross p q"
  by (simp add: cross_def)

lemma ring_sum_antisym:
  assumes "\<And>p q. f q p = - f p q"
  shows "ring_sum f (rev r) = - ring_sum f r"
proof -
  have "(\<lambda>p q. f q p) = (\<lambda>p q. - f p q)"
    using assms by (intro ext)
  then show ?thesis
    by (simp add: ring_sum_rev ring_sum_uminus)
qed

lemma signed_area_rev: "signed_area (rev r) = - signed_area r"
  unfolding signed_area_def by (simp add: ring_sum_antisym [OF cross_swap])

lemma planar_area_rev: "planar_area (rev r) = planar_area r"
  by (simp add: planar_area_def signed_area_rev)

lemma ring_centroid_rev: "ring_centroid (rev r) = ring_centroid r"
proof -
  have x: "ring_sum (\<lambda>p q. (fst p + fst q) * cross p q) (rev r) =
           - ring_sum (\<lambda>p q. (fst p + fst q) * cross p q) r"
    by (rule ring_sum_antisym) (simp add: cross_def algebra_simps)
  have y: "ring_sum (\<lambda>p q. (snd p + snd q) * cross p q) (rev r) =
           - ring_sum (\<lambda>p q. (snd p + snd q) * cross p q) r"
    by (rule ring_sum_antisym) (simp add: cross_def algebra_simps)
  show ?thesis
    by (simp add: ring_centroid_def Let_def x y signed_area_rev)
qed

text \<open>
  C9. Under any projection, the computed area of a polygon is not negative, and it does not
  change when the order of the vertices is reversed: the centroid, hence the zone, is the
  same, and the signed shoelace area only changes sign.
\<close>

theorem polygon_area_reversal:
  "0 \<le> polygon_area_m2 tf r \<and> polygon_area_m2 tf (rev r) = polygon_area_m2 tf r"
proof
  show "0 \<le> polygon_area_m2 tf r"
    by (simp add: polygon_area_m2_def Let_def planar_area_def)
  show "polygon_area_m2 tf (rev r) = polygon_area_m2 tf r"
    by (simp add: polygon_area_m2_def Let_def ring_centroid_rev rev_map [symmetric]
        planar_area_rev)
qed

lemma path_sum_two_points:
  assumes "set xs \<subseteq> {p, q}" and "xs \<noteq> []"
  shows "path_sum cross xs = cross (hd xs) (last xs)"
  using assms
proof (induction xs rule: induct_list012)
  case 1
  then show ?case by simp
next
  case (2 x)
  then show ?case by (simp add: cross_def)
next
  case (3 x y zs)
  then have ih: "path_sum cross (y # zs) = cross y (last (y # zs))" by simp
  have mem: "x \<in> {p, q}" "y \<in> {p, q}" "last (y # zs) \<in> {p, q}"
    using 3(3) last_in_set [of "y # zs"] by auto
  have "cross x y + cross y (last (y # zs)) = cross x (last (y # zs))"
    using mem by (auto simp add: cross_def)
  then show ?case using ih by simp
qed

lemma planar_area_two_points:
  assumes "set r \<subseteq> {p, q}"
  shows "planar_area r = 0"
proof (cases "r = []")
  case True
  then show ?thesis by (simp add: planar_area_def signed_area_def ring_sum_def)
next
  case False
  then have "hd r \<in> set r" by simp
  then have "set (r @ [hd r]) \<subseteq> {p, q}" using assms by auto
  then have "path_sum cross (r @ [hd r]) = cross (hd (r @ [hd r])) (last (r @ [hd r]))"
    by (rule path_sum_two_points) simp
  then have "path_sum cross (r @ [hd r]) = 0"
    using False by (simp add: cross_def)
  then show ?thesis
    using False by (simp add: planar_area_def signed_area_def ring_sum_closed)
qed

lemma card_less_3:
  assumes "card (set r) < 3"
  shows "\<exists>p q. set r \<subseteq> {p, q}"
proof -
  have "card (set r) = 0 \<or> card (set r) = 1 \<or> card (set r) = 2" using assms by arith
  then show ?thesis
  proof (elim disjE)
    assume "card (set r) = 0" then show ?thesis by simp
  next
    assume "card (set r) = 1" then show ?thesis by (auto simp: card_1_singleton_iff)
  next
    assume "card (set r) = 2" then show ?thesis by (auto simp: card_2_iff)
  qed
qed

lemma sum_list_zero: "(\<And>x. x \<in> set xs \<Longrightarrow> f x = (0::real)) \<Longrightarrow> sum_list (map f xs) = 0"
  by (induction xs) auto

lemma shape_rings:
  assumes "shape g = Inr p" and "exterior p \<noteq> []"
  shows "coordinates g = exterior p # interiors p"
  using assms
  by (cases "coordinates g") (auto simp add: shape_def split: if_splits)

text \<open>
  C6, as amended. The area computation neither removes duplicate vertices nor counts them,
  and has no failure of its own for a degenerate polygon: for every polygon with fewer than
  3 distinct vertices that the geometry library builds (each ring has at least 4 positions
  once closed), it returns the area 0, unless the projection library does not know the
  EPSG code asked for.
\<close>

theorem degenerate_polygon_area:
  assumes "shape g = Inr p" and "exterior p \<noteq> []"
    and "card (set (concat (coordinates g))) < 3"
  shows "area_of_polygon w p = Inr 0 \<or> area_of_polygon w p = Inl CRSError"
proof -
  obtain a b where ab: "set (concat (coordinates g)) \<subseteq> {a, b}"
    using card_less_3 [OF assms(3)] by blast
  have rings: "coordinates g = exterior p # interiors p"
    using shape_rings [OF assms(1,2)] .
  have ext: "set (exterior p) \<subseteq> {a, b}"
    using ab rings by auto
  have ints: "set h \<subseteq> {a, b}" if "h \<in> set (interiors p)" for h
    using ab rings that by auto
  have e0: "planar_area (map f (exterior p)) = 0" for f
  proof -
    have "set (map f (exterior p)) \<subseteq> {f a, f b}" using ext by auto
    then show ?thesis by (rule planar_area_two_points)
  qed
  have h0: "planar_area (map f h) = 0" if "h \<in> set (interiors p)" for f h
  proof -
    have "set (map f h) \<subseteq> {f a, f b}" using ints [OF that] by auto
    then show ?thesis by (rule planar_area_two_points)
  qed
  have m0: "polygon_area_m2 (transformer w) (exterior p) = 0"
    by (simp add: polygon_area_m2_def Let_def e0)
  have s0: "(\<Sum>h\<leftarrow>interiors p. planar_area (map f h)) = 0" for f
    by (rule sum_list_zero) (rule h0)
  show ?thesis
    using assms(2) by (simp add: area_of_polygon_def m0 e0 s0)
qed

text \<open>The amended C6 on a ring of four positions, two of them distinct.\<close>

theorem degenerate_polygon_area_witness:
  "shape collapsed_polygon = Inr \<lparr>exterior = collapsed_ring, interiors = []\<rparr> \<and>
   collapsed_ring \<noteq> [] \<and>
   card (set (concat (coordinates collapsed_polygon))) < 3 \<and>
   area_of_polygon quiet_world \<lparr>exterior = collapsed_ring, interiors = []\<rparr> = Inr 0"
proof -
  have sh: "shape collapsed_polygon = Inr \<lparr>exterior = collapsed_ring, interiors = []\<rparr>"
    by (simp add: shape_def collapsed_polygon_def collapsed_ring_def linear_ring_ok_def)
  have ne: "exterior \<lparr>exterior = collapsed_ring, interiors = []\<rparr> \<noteq> []"
    by (simp add: collapsed_ring_def)
  have "set (concat (coordinates collapsed_polygon)) = {(0, 0), (1, 1)}"
    by (auto simp add: collapsed_polygon_def collapsed_ring_def)
  then have c: "card (set (concat (coordinates collapsed_polygon))) < 3" by simp
  have k: "area_of_polygon quiet_world \<lparr>exterior = collapsed_ring, interiors = []\<rparr>
             \<noteq> Inl CRSError"
    by (simp add: area_of_polygon_def quiet_world_def collapsed_ring_def)
  show ?thesis
    using degenerate_polygon_area [OF sh ne c, of quiet_world] sh ne c k by simp
qed

text \<open>
  C6 as stated fails: the library builds the ring with two distinct vertices, the area
  computation gives it the area 0, and the request that carries it is answered.
\<close>

theorem degenerate_polygon_accepted:
  "shape collapsed_polygon = Inr \<lparr>exterior = collapsed_ring, interiors = []\<rparr> \<and>
   roof_area quiet_world collapsed_request = Inr (Some 0) \<and>
   \<not> isl (snd (estimate quiet_world collapsed_request))"
proof -
  have sh: "shape collapsed_polygon = Inr \<lparr>exterior = collapsed_ring, interiors = []\<rparr>"
    by (simp add: shape_def collapsed_polygon_def collapsed_ring_def linear_ring_ok_def)
  have a: "area_of_polygon quiet_world \<lparr>exterior = collapsed_ring, interiors = []\<rparr> = Inr 0"
    by (simp add: area_of_polygon_def collapsed_ring_def polygon_area_m2_def quiet_world_def
        planar_area_def signed_area_def ring_sum_def cross_def Let_def)
  have r: "roof_area quiet_world collapsed_request = Inr (Some 0)"
    using sh a by (simp add: roof_area_def collapsed_request_def plain_request_def)
  have "\<not> isl (snd (estimate quiet_world collapsed_request))"
    unfolding estimate_def r
    by (simp add: collapsed_request_def quiet_world_def plain_request_def
        fetch_power_irradiance_def pvgis_energy_def Let_def power_params_def annual_def
        pvgis_parse_def pvgis_monthly_def pvgis_keyed_def pvgis_fallback_def
        pvgis_monthly_list_def month_keys_eval)
  then show ?thesis using sh r by simp
qed

section \<open>Yield: climatology\<close>

lemma annual_jan_only:
  "annual (JObj [(k, JObj [(''JAN'', JNum x)])]) k = Inr (Some (31 * x))"
  by (simp add: annual_def month_days_def)

lemma annual_vals_numeric:
  assumes "\<forall>(v, d) \<in> set (present_months monthly md). is_number v"
  shows "annual_vals monthly md =
           Inr (map (\<lambda>(v, d). JNum (to_float v * of_nat d)) (present_months monthly md))"
  using assms
proof (induction md)
  case Nil
  then show ?case by (simp add: present_months_def)
next
  case (Cons a md)
  obtain m d where a: "a = (m, d)" by (cases a)
  have rest: "\<forall>(v, d) \<in> set (present_months monthly md). is_number v"
    using Cons.prems by (auto simp add: present_months_def)
  note ih = Cons.IH [OF rest]
  show ?case
  proof (cases "map_of monthly m")
    case None
    then show ?thesis using ih a by (simp add: present_months_def)
  next
    case (Some v)
    show ?thesis
    proof (cases "v = JNull")
      case True
      then show ?thesis using ih a Some by (simp add: present_months_def)
    next
      case False
      then have "is_number v" using Cons.prems a Some by (simp add: present_months_def)
      then show ?thesis using ih a Some False
        by (cases v) (simp_all add: present_months_def)
    qed
  qed
qed

lemma py_sum_numbers:
  "py_sum acc (map (\<lambda>(v, d). JNum (to_float v * of_nat d)) ps) =
     Inr (acc + (\<Sum>(v, d)\<leftarrow>ps. to_float v * of_nat d))"
  by (induction ps arbitrary: acc) (auto simp add: algebra_simps)

text \<open>
  On a mapping whose present values are all numbers, \<open>annual\<close> is the sum of value times day
  count over the present months, and absent when no month is present.
\<close>

lemma annual_numeric:
  assumes "map_of params key = Some (JObj monthly)" and "monthly \<noteq> []"
    and "\<forall>(v, d) \<in> set (present_months monthly month_days). is_number v"
  shows "annual (JObj params) key =
           Inr (if present_months monthly month_days = [] then None
                else Some (\<Sum>(v, d)\<leftarrow>present_months monthly month_days.
                             to_float v * of_nat d))"
  using assms(1,2) annual_vals_numeric [OF assms(3)]
  by (simp add: annual_def py_sum_numbers)

text \<open>
  C7. The claim: a monthly value that is not a number is treated as an absent one, and no
  type error leaves the routine. The code evaluated on a mapping whose January value is the
  string \<open>5.2\<close>: the string is repeated 31 times and the sum raises \<open>TypeError\<close>, where the
  same mapping with \<open>None\<close> for January gives an absent total.
\<close>

theorem annual_string_value:
  "annual (JObj [(''DNI'', JObj [(''JAN'', JStr ''5.2'')])]) ''DNI'' = Inl TypeError \<and>
   annual (JObj [(''DNI'', JObj [(''JAN'', JNull)])]) ''DNI'' = Inr None"
  by (simp add: annual_def month_days_def)

section \<open>Yield: monthly and annual energy\<close>


lemma collect_length: "collect f xs = Inr ys \<Longrightarrow> length ys = length xs"
  by (induction xs arbitrary: ys) (auto split: sum.splits)

lemma pvgis_keyed_length:
  assumes "pvgis_keyed data = Inr ms"
  shows "length ms = 12"
proof -
  have "length ms = length month_keys"
    using assms unfolding pvgis_keyed_def by (rule collect_length)
  then show ?thesis by (simp add: month_keys_def)
qed

lemma pvgis_fallback_not_list:
  assumes "pvgis_monthly_list data = Inr v" and "\<not> is_list v"
  shows "pvgis_fallback data = Inr (replicate 12 JNull)"
  using assms by (cases v) (simp_all add: pvgis_fallback_def)





lemma py_get_month: "py_get (JObj m) ''E_m'' JNull = Inr (month_value m)"
  by (simp add: month_value_def)














end
